theory Spec2Isabelle
  imports Complex_Main "HOL-Library.Log_Nat"
begin

section \<open>Values of the host language\<close>

text \<open>
  The program is \<^verbatim>\<open>src/main.py\<close>: \<^verbatim>\<open>validate_item\<close> checks one decoded JSON value,
  \<^verbatim>\<open>process_file\<close> loads a file, validates every element and aggregates, \<^verbatim>\<open>main\<close> turns the
  outcome into output streams and an exit status.

  A Python \<^verbatim>\<open>str\<close> is a sequence of Unicode code points, so decoded text is a list of
  code points (\<open>char\<close> would be a byte). The literals of the source are ASCII and are
  written as HOL strings; \<open>py_lit\<close> reads one as code points. Diagnostic messages are
  HOL strings.
\<close>

type_synonym pystr = "nat list"

definition py_lit :: "string \<Rightarrow> pystr" where
  "py_lit s = map of_char s"

definition quoted :: "string \<Rightarrow> string" where
  "quoted s = [CHR 0x27] @ s @ [CHR 0x27]"

subsection \<open>Floating point\<close>

text \<open>
  A Python \<^verbatim>\<open>float\<close> is an IEEE 754 binary64 value: \<open>FFin s m\<close> is the finite value of
  magnitude \<open>m\<close> (a rational, \<open>0 \<le> m\<close>) with sign bit \<open>s\<close> (\<open>True\<close> is negative, so
  \<open>FFin True 0\<close> is \<^verbatim>\<open>-0.0\<close>), \<open>FInf s\<close> an infinity, \<open>FNaN\<close> not-a-number. The decoder
  produces all of them (\<^verbatim>\<open>json.load\<close> reads \<^verbatim>\<open>NaN\<close>, \<^verbatim>\<open>Infinity\<close> and \<^verbatim>\<open>-Infinity\<close>).
\<close>

datatype pyfloat = FFin bool rat | FInf bool | FNaN

definition pow2 :: "int \<Rightarrow> rat" where
  "pow2 k = (if 0 \<le> k then 2 ^ nat k else 1 / 2 ^ nat (- k))"

text \<open>\<open>floor_log2 q\<close> is the exponent \<open>e\<close> with \<open>2^e \<le> q < 2^(e+1)\<close>, for \<open>0 < q\<close>.\<close>

definition floor_log2 :: "rat \<Rightarrow> int" where
  "floor_log2 q = (if 1 \<le> q then bitlen \<lfloor>q\<rfloor> - 1 else - bitlen (\<lceil>1 / q\<rceil> - 1))"

text \<open>Round to the nearest integer, a tie to the even one.\<close>

definition rne :: "rat \<Rightarrow> int" where
  "rne y = (let f = \<lfloor>y\<rfloor>; d = y - of_int f in
     if d < 1 / 2 then f else if 1 / 2 < d then f + 1 else if even f then f else f + 1)"

text \<open>
  \<open>round_mag q\<close> rounds a magnitude \<open>0 < q\<close> to binary64, to nearest with ties to even:
  53 significant bits, the exponent no smaller than \<open>-1022\<close> (below that the spacing stays
  \<open>2^-1074\<close>, the subnormal range). \<open>None\<close> is overflow: the rounded magnitude would be
  \<open>2^1024\<close> or more.
\<close>

definition round_mag :: "rat \<Rightarrow> rat option" where
  "round_mag q =
     (let e = max (floor_log2 q) (- 1022) in
      if 1023 < e then None
      else let ulp = pow2 (e - 52); r = rne (q / ulp) in
        if e = 1023 \<and> r = 2 ^ 53 then None else Some (of_int r * ulp))"

definition round_val :: "rat \<Rightarrow> pyfloat" where
  "round_val v = (case round_mag \<bar>v\<bar> of None \<Rightarrow> FInf (v < 0) | Some m \<Rightarrow> FFin (v < 0) m)"

definition signed :: "bool \<Rightarrow> rat \<Rightarrow> rat" where
  "signed s m = (if s then - m else m)"

text \<open>\<^verbatim>\<open>a + b\<close> on floats. An exact sum of zero is \<^verbatim>\<open>-0.0\<close> only when both operands are negative.\<close>

fun fadd :: "pyfloat \<Rightarrow> pyfloat \<Rightarrow> pyfloat" where
  "fadd FNaN y = FNaN"
| "fadd x FNaN = FNaN"
| "fadd (FInf s) (FInf t) = (if s = t then FInf s else FNaN)"
| "fadd (FInf s) (FFin t b) = FInf s"
| "fadd (FFin s a) (FInf t) = FInf t"
| "fadd (FFin s a) (FFin t b) =
     (let v = signed s a + signed t b in
      if v = 0 then FFin (s \<and> t) 0 else round_val v)"

text \<open>The IEEE quotient \<^verbatim>\<open>a / b\<close>; Python raises before it divides by a zero (\<open>py_truediv\<close>).\<close>

fun fdiv :: "pyfloat \<Rightarrow> pyfloat \<Rightarrow> pyfloat" where
  "fdiv FNaN y = FNaN"
| "fdiv x FNaN = FNaN"
| "fdiv (FInf s) (FInf t) = FNaN"
| "fdiv (FInf s) (FFin t b) = FInf (s \<noteq> t)"
| "fdiv (FFin s a) (FInf t) = FFin (s \<noteq> t) 0"
| "fdiv (FFin s a) (FFin t b) =
     (if b = 0 then (if a = 0 then FNaN else FInf (s \<noteq> t))
      else if a = 0 then FFin (s \<noteq> t) 0
      else (case round_mag (a / b) of None \<Rightarrow> FInf (s \<noteq> t) | Some m \<Rightarrow> FFin (s \<noteq> t) m))"

subsection \<open>Decoded JSON and exceptions\<close>

text \<open>
  What \<^verbatim>\<open>json.load\<close> returns: \<^verbatim>\<open>None\<close>, \<^verbatim>\<open>bool\<close>, \<^verbatim>\<open>int\<close> (unbounded), \<^verbatim>\<open>float\<close>, \<^verbatim>\<open>str\<close>,
  \<^verbatim>\<open>list\<close> or \<^verbatim>\<open>dict\<close>. A dict is an association list read through \<open>map_of\<close>.
\<close>

datatype json =
    JNull
  | JBool bool
  | JInt int
  | JFloat pyfloat
  | JStr pystr
  | JList "json list"
  | JDict "(pystr \<times> json) list"

text \<open>
  The exceptions of a run, each with the text \<^verbatim>\<open>str(exc)\<close> gives. \<open>FileNotFoundError\<close>,
  \<open>JSONDecodeError\<close> and \<open>OtherError\<close> come from \<^verbatim>\<open>open\<close> and \<^verbatim>\<open>json.load\<close>; all are
  subclasses of \<^verbatim>\<open>Exception\<close>. \<open>Unmodelled\<close> marks the one call whose result this theory
  does not describe (\<^verbatim>\<open>float\<close> of a \<^verbatim>\<open>str\<close>, which parses the text); \<open>process_file\<close>
  never makes it (lemma \<open>process_items_value_number\<close>).
\<close>

datatype exc =
    ValueError string
  | TypeError string
  | KeyError string
  | OverflowError string
  | ZeroDivisionError string
  | FileNotFoundError string
  | JSONDecodeError string
  | OtherError string
  | Unmodelled string

fun exc_str :: "exc \<Rightarrow> string" where
  "exc_str (ValueError m) = m"
| "exc_str (TypeError m) = m"
| "exc_str (KeyError k) = quoted k"
| "exc_str (OverflowError m) = m"
| "exc_str (ZeroDivisionError m) = m"
| "exc_str (FileNotFoundError m) = m"
| "exc_str (JSONDecodeError m) = m"
| "exc_str (OtherError m) = m"
| "exc_str (Unmodelled m) = m"

subsection \<open>Built-in operations the source calls\<close>

text \<open>\<^verbatim>\<open>isinstance(v, int)\<close>: \<^verbatim>\<open>bool\<close> is a subclass of \<^verbatim>\<open>int\<close>, so a boolean is an instance.\<close>

fun isinstance_int :: "json \<Rightarrow> bool" where
  "isinstance_int (JInt n) = True"
| "isinstance_int (JBool b) = True"
| "isinstance_int v = False"

text \<open>\<^verbatim>\<open>isinstance(v, (int, float))\<close>.\<close>

fun isinstance_int_float :: "json \<Rightarrow> bool" where
  "isinstance_int_float (JFloat f) = True"
| "isinstance_int_float v = isinstance_int v"

text \<open>
  \<^verbatim>\<open>str.strip()\<close> removes leading and trailing whitespace, the code points for which
  \<^verbatim>\<open>str.isspace\<close> holds.
\<close>

definition isspace :: "nat \<Rightarrow> bool" where
  "isspace c =
     ((0x09 \<le> c \<and> c \<le> 0x0D) \<or> (0x1C \<le> c \<and> c \<le> 0x20) \<or> c = 0x85 \<or> c = 0xA0 \<or>
      c = 0x1680 \<or> (0x2000 \<le> c \<and> c \<le> 0x200A) \<or> c = 0x2028 \<or> c = 0x2029 \<or>
      c = 0x202F \<or> c = 0x205F \<or> c = 0x3000)"

definition strip :: "pystr \<Rightarrow> pystr" where
  "strip s = rev (dropWhile isspace (rev (dropWhile isspace s)))"

text \<open>
  \<^verbatim>\<open>float(n)\<close> of an \<^verbatim>\<open>int\<close>: the nearest binary64 value, \<^verbatim>\<open>OverflowError\<close> when it is out
  of range.
\<close>

definition float_of_int :: "int \<Rightarrow> exc + pyfloat" where
  "float_of_int n =
     (if n = 0 then Inr (FFin False 0)
      else (case round_mag \<bar>of_int n\<bar> of
              None \<Rightarrow> Inl (OverflowError ''int too large to convert to float'')
            | Some m \<Rightarrow> Inr (FFin (n < 0) m)))"

text \<open>\<^verbatim>\<open>float(v)\<close>.\<close>

fun py_float :: "json \<Rightarrow> exc + pyfloat" where
  "py_float (JBool b) = Inr (FFin False (if b then 1 else 0))"
| "py_float (JInt n) = float_of_int n"
| "py_float (JFloat f) = Inr f"
| "py_float (JStr s) = Inl (Unmodelled ''float() of a str'')"
| "py_float JNull =
     Inl (TypeError (''float() argument must be a string or a real number, not '' @ quoted ''NoneType''))"
| "py_float (JList xs) =
     Inl (TypeError (''float() argument must be a string or a real number, not '' @ quoted ''list''))"
| "py_float (JDict d) =
     Inl (TypeError (''float() argument must be a string or a real number, not '' @ quoted ''dict''))"

text \<open>\<^verbatim>\<open>item[key]\<close> with a \<^verbatim>\<open>str\<close> key.\<close>

fun getitem :: "json \<Rightarrow> string \<Rightarrow> exc + json" where
  "getitem (JDict d) k =
     (case map_of d (py_lit k) of None \<Rightarrow> Inl (KeyError k) | Some v \<Rightarrow> Inr v)"
| "getitem (JList xs) k =
     Inl (TypeError ''list indices must be integers or slices, not str'')"
| "getitem (JStr s) k =
     Inl (TypeError (''string indices must be integers, not '' @ quoted ''str''))"
| "getitem JNull k = Inl (TypeError (quoted ''NoneType'' @ '' object is not subscriptable''))"
| "getitem (JBool b) k = Inl (TypeError (quoted ''bool'' @ '' object is not subscriptable''))"
| "getitem (JInt n) k = Inl (TypeError (quoted ''int'' @ '' object is not subscriptable''))"
| "getitem (JFloat f) k = Inl (TypeError (quoted ''float'' @ '' object is not subscriptable''))"

text \<open>
  \<^verbatim>\<open>a / n\<close> with a float \<open>a\<close> and an int \<open>n\<close>: \<open>n\<close> is converted to float, a zero divisor
  raises, otherwise the IEEE quotient.
\<close>

definition py_truediv :: "pyfloat \<Rightarrow> int \<Rightarrow> exc + pyfloat" where
  "py_truediv a n =
     (case float_of_int n of
        Inl e \<Rightarrow> Inl e
      | Inr b \<Rightarrow>
          if n = 0 then Inl (ZeroDivisionError ''float division by zero'')
          else Inr (fdiv a b))"

section \<open>The program\<close>

subsection \<open>\<^verbatim>\<open>validate_item\<close>\<close>

text \<open>
  The checks of the source in its order; each \<^verbatim>\<open>raise\<close> is an \<open>Inl\<close>. The name test
  \<^verbatim>\<open>not isinstance(name, str) or not name.strip()\<close> is \<open>bad_name\<close>.
\<close>

fun bad_name :: "json \<Rightarrow> bool" where
  "bad_name (JStr s) = (strip s = [])"
| "bad_name v = True"

fun validate_item :: "json \<Rightarrow> exc + unit" where
  "validate_item (JDict d) =
     (case map_of d (py_lit ''id'') of
        None \<Rightarrow> Inl (ValueError (''missing field '' @ quoted ''id''))
      | Some i \<Rightarrow>
          if \<not> isinstance_int i then Inl (ValueError ''field 'id' must be int'')
          else (case map_of d (py_lit ''name'') of
            None \<Rightarrow> Inl (ValueError (''missing field '' @ quoted ''name''))
          | Some n \<Rightarrow>
              if bad_name n then Inl (ValueError ''field 'name' must be a non-empty string'')
              else (case map_of d (py_lit ''value'') of
                None \<Rightarrow> Inl (ValueError (''missing field '' @ quoted ''value''))
              | Some v \<Rightarrow>
                  if \<not> isinstance_int_float v
                  then Inl (ValueError ''field 'value' must be a number'')
                  else Inr ())))"
| "validate_item v = Inl (ValueError ''item must be an object'')"

subsection \<open>\<^verbatim>\<open>process_file\<close>\<close>

record summary =
  count :: int
  total_value :: pyfloat
  avg_value :: pyfloat

text \<open>The \<^verbatim>\<open>for\<close> loop, with the running \<^verbatim>\<open>total\<close> (\<open>tot\<close>) and \<^verbatim>\<open>count\<close> (\<open>cnt\<close>).\<close>

fun process_items :: "pyfloat \<Rightarrow> int \<Rightarrow> json list \<Rightarrow> exc + (pyfloat \<times> int)" where
  "process_items tot cnt [] = Inr (tot, cnt)"
| "process_items tot cnt (item # rest) =
     (case validate_item item of
        Inl e \<Rightarrow> Inl e
      | Inr u \<Rightarrow>
          (case getitem item ''value'' of
             Inl e \<Rightarrow> Inl e
           | Inr v \<Rightarrow>
               (case py_float v of
                  Inl e \<Rightarrow> Inl e
                | Inr f \<Rightarrow> process_items (fadd tot f) (cnt + 1) rest)))"

text \<open>
  Reading the file is the environment's part: \<open>fs path\<close> is what \<^verbatim>\<open>open\<close> followed by
  \<^verbatim>\<open>json.load\<close> gives for the path, the decoded value or the exception raised.
\<close>

definition process_file :: "(string \<Rightarrow> exc + json) \<Rightarrow> string \<Rightarrow> exc + summary" where
  "process_file fs path =
     (case fs path of
        Inl e \<Rightarrow> Inl e
      | Inr data \<Rightarrow>
          (case data of
             JList items \<Rightarrow>
               (case process_items (FFin False 0) 0 items of
                  Inl e \<Rightarrow> Inl e
                | Inr (tot, cnt) \<Rightarrow>
                    (case (if cnt \<noteq> 0 then py_truediv tot cnt else Inr (FFin False 0)) of
                       Inl e \<Rightarrow> Inl e
                     | Inr avg \<Rightarrow>
                         Inr \<lparr>count = cnt, total_value = tot, avg_value = avg\<rparr>))
           | _ \<Rightarrow> Inl (ValueError ''input JSON must be a list'')))"

subsection \<open>\<^verbatim>\<open>main\<close>\<close>

text \<open>
  \<open>main\<close> after \<^verbatim>\<open>parse_args\<close> has returned (on a command line it rejects, argparse
  itself exits with status 2 before the \<^verbatim>\<open>try\<close>). Each \<^verbatim>\<open>print\<close> adds one line to its
  stream: \<open>Dumps s\<close> is the text \<^verbatim>\<open>json.dumps(summary, ensure_ascii=False)\<close>, \<open>Help\<close> the
  text of \<^verbatim>\<open>print_help\<close>, \<open>Text m\<close> the string \<open>m\<close>. \<^verbatim>\<open>except Exception\<close> catches every
  exception of \<open>exc\<close>.
\<close>

datatype line = Text string | Dumps summary | Help

record args =
  command :: string
  input :: string

record outcome =
  exit_code :: int
  stdout :: "line list"
  stderr :: "line list"

definition main :: "(string \<Rightarrow> exc + json) \<Rightarrow> args \<Rightarrow> outcome" where
  "main fs a =
     (if command a = ''process'' then
        (case process_file fs (input a) of
           Inr s \<Rightarrow> \<lparr>exit_code = 0, stdout = [Dumps s], stderr = []\<rparr>
         | Inl e \<Rightarrow> \<lparr>exit_code = 1, stdout = [], stderr = [Text (''Error: '' @ exc_str e)]\<rparr>)
      else \<lparr>exit_code = 2, stdout = [Help], stderr = []\<rparr>)"

section \<open>Notions used in the statements\<close>

text \<open>\<^verbatim>\<open>float(item["value"])\<close>, the element's value coerced to floating point.\<close>

definition item_float :: "json \<Rightarrow> exc + pyfloat" where
  "item_float item = (case getitem item ''value'' of Inl e \<Rightarrow> Inl e | Inr v \<Rightarrow> py_float v)"

text \<open>
  A file system that holds one readable JSON file; any other path is missing (the text of
  the exception is the one Python gives for a path without quote or escape characters).
\<close>

definition one_file :: "string \<Rightarrow> json \<Rightarrow> string \<Rightarrow> exc + json" where
  "one_file name data path =
     (if path = name then Inr data
      else Inl (FileNotFoundError (''[Errno 2] No such file or directory: '' @ quoted path)))"

text \<open>
  The fixed order of checks as the specification lists it (section 4.1): each check is a
  predicate on the candidate taken alone, with the message of its failure, and
  \<open>first_failure\<close> reports the first check of a list that does not hold.
\<close>

fun is_object :: "json \<Rightarrow> bool" where
  "is_object (JDict d) = True"
| "is_object v = False"

fun has_key :: "string \<Rightarrow> json \<Rightarrow> bool" where
  "has_key k (JDict d) = (map_of d (py_lit k) \<noteq> None)"
| "has_key k v = False"

fun field_holds :: "string \<Rightarrow> (json \<Rightarrow> bool) \<Rightarrow> json \<Rightarrow> bool" where
  "field_holds k P (JDict d) = (case map_of d (py_lit k) of None \<Rightarrow> False | Some v \<Rightarrow> P v)"
| "field_holds k P v = False"

fun nonempty_text :: "json \<Rightarrow> bool" where
  "nonempty_text (JStr s) = (strip s \<noteq> [])"
| "nonempty_text v = False"

definition check_order :: "((json \<Rightarrow> bool) \<times> string) list" where
  "check_order =
     [(is_object, ''item must be an object''),
      (has_key ''id'', ''missing field '' @ quoted ''id''),
      (field_holds ''id'' isinstance_int, ''field 'id' must be int''),
      (has_key ''name'', ''missing field '' @ quoted ''name''),
      (field_holds ''name'' nonempty_text, ''field 'name' must be a non-empty string''),
      (has_key ''value'', ''missing field '' @ quoted ''value''),
      (field_holds ''value'' isinstance_int_float, ''field 'value' must be a number'')]"

fun first_failure :: "((json \<Rightarrow> bool) \<times> string) list \<Rightarrow> json \<Rightarrow> exc + unit" where
  "first_failure [] x = Inr ()"
| "first_failure ((P, m) # cs) x = (if P x then first_failure cs x else Inl (ValueError m))"

text \<open>Records used as concrete inputs.\<close>

definition record_of :: "json \<Rightarrow> json \<Rightarrow> json \<Rightarrow> json" where
  "record_of i n v = JDict [(py_lit ''id'', i), (py_lit ''name'', n), (py_lit ''value'', v)]"

section \<open>Properties of the built-in operations\<close>

lemma bad_name_iff: "bad_name n \<longleftrightarrow> \<not> (\<exists>s. n = JStr s \<and> strip s \<noteq> [])"
  by (cases n) auto

lemma strip_Nil_iff: "strip s = [] \<longleftrightarrow> (\<forall>c\<in>set s. isspace c)"
proof
  assume "strip s = []"
  then have all: "\<forall>c\<in>set (dropWhile isspace s). isspace c"
    by (simp add: strip_def)
  have "dropWhile isspace s = []"
  proof (rule ccontr)
    assume ne: "dropWhile isspace s \<noteq> []"
    then have "\<not> isspace (hd (dropWhile isspace s))"
      by (rule hd_dropWhile)
    moreover have "hd (dropWhile isspace s) \<in> set (dropWhile isspace s)"
      using ne by simp
    ultimately show False using all by blast
  qed
  then show "\<forall>c\<in>set s. isspace c"
    by simp
next
  assume "\<forall>c\<in>set s. isspace c"
  then show "strip s = []"
    by (auto simp: strip_def dest: set_dropWhileD)
qed

text \<open>The pieces of the rounding: the exponent brackets the magnitude, and \<open>rne\<close> is a nearest integer.\<close>

lemma pow2_nonneg: "0 \<le> k \<Longrightarrow> pow2 k = 2 ^ nat k"
  by (simp add: pow2_def)

lemma pow2_neg: "k \<le> 0 \<Longrightarrow> pow2 k = 1 / 2 ^ nat (- k)"
  by (cases "k = 0") (simp_all add: pow2_def)

lemma floor_log2_bounds:
  assumes "0 < q"
  shows "pow2 (floor_log2 q) \<le> q \<and> q < pow2 (floor_log2 q + 1)"
proof (cases "1 \<le> q")
  case True
  let ?n = "\<lfloor>q\<rfloor>"
  have n: "0 < ?n" using True by simp
  from bitlen_bounds [OF n] have lo: "2 ^ nat (bitlen ?n - 1) \<le> ?n" and hi: "?n < 2 ^ nat (bitlen ?n)"
    by auto
  have b: "1 \<le> bitlen ?n"
    using n by (simp add: bitlen_ge_iff_power)
  have "(2::rat) ^ nat (bitlen ?n - 1) = of_int (2 ^ nat (bitlen ?n - 1))" by simp
  also have "\<dots> \<le> of_int ?n" using lo by (simp only: of_int_le_iff)
  also have "\<dots> \<le> q" by simp
  finally have 1: "pow2 (floor_log2 q) \<le> q"
    using True b by (simp add: floor_log2_def pow2_nonneg)
  have "?n + 1 \<le> 2 ^ nat (bitlen ?n)" using hi by simp
  then have "of_int (?n + 1) \<le> (of_int (2 ^ nat (bitlen ?n)) :: rat)" by (simp only: of_int_le_iff)
  moreover have "q < of_int (?n + 1)" by linarith
  ultimately have "q < 2 ^ nat (bitlen ?n)" by simp
  then have 2: "q < pow2 (floor_log2 q + 1)"
    using True b by (simp add: floor_log2_def pow2_nonneg)
  from 1 2 show ?thesis ..
next
  case False
  let ?m = "\<lceil>1 / q\<rceil> - 1"
  let ?k = "bitlen ?m"
  have inv: "1 < 1 / q" using False assms by simp
  then have m: "0 < ?m" by linarith
  from bitlen_bounds [OF m] have lo: "2 ^ nat (?k - 1) \<le> ?m" and hi: "?m < 2 ^ nat ?k"
    by auto
  have b: "1 \<le> ?k"
    using m by (simp add: bitlen_ge_iff_power)
  have fl: "floor_log2 q = - ?k" using False by (simp add: floor_log2_def)
  have "1 / q \<le> of_int (?m + 1)" by simp
  also have "\<dots> \<le> of_int (2 ^ nat ?k)" using hi by (simp only: of_int_le_iff)
  finally have "1 / q \<le> 2 ^ nat ?k" by simp
  then have "1 / 2 ^ nat ?k \<le> q"
    using assms by (simp add: field_simps)
  then have 1: "pow2 (floor_log2 q) \<le> q"
    using b by (simp add: fl pow2_neg)
  have "(2::rat) ^ nat (?k - 1) = of_int (2 ^ nat (?k - 1))" by simp
  also have "\<dots> \<le> of_int ?m" using lo by (simp only: of_int_le_iff)
  also have "\<dots> < 1 / q" by linarith
  finally have "q < 1 / 2 ^ nat (?k - 1)"
    using assms by (simp add: field_simps)
  moreover have "nat (- (1 - ?k)) = nat (?k - 1)" by simp
  ultimately have 2: "q < pow2 (floor_log2 q + 1)"
    using b by (simp add: fl pow2_neg)
  from 1 2 show ?thesis ..
qed

lemma rne_nearest: "\<bar>of_int (rne y) - y\<bar> \<le> 1 / 2"
proof -
  have "of_int \<lfloor>y\<rfloor> \<le> y" and "y < of_int \<lfloor>y\<rfloor> + 1"
    by linarith+
  then show ?thesis
    by (auto simp: rne_def Let_def)
qed

lemma rne_of_int: "rne (of_int n) = n"
  by (simp add: rne_def)

lemma floor_log2_of_int:
  assumes "0 < n"
  shows "floor_log2 (of_int n) = bitlen n - 1"
  using assms by (simp add: floor_log2_def)

lemma round_mag_of_int_Some:
  assumes "0 < n" and "n < 2 ^ 1023"
  shows "\<exists>m. round_mag (of_int n) = Some m"
proof -
  have "bitlen n \<le> 1023"
    using assms(2) by (simp add: bitlen_le_iff_power)
  then have "max (floor_log2 (of_int n)) (- 1022) \<le> 1022"
    using assms(1) by (simp add: floor_log2_of_int)
  then have "\<not> 1023 < max (floor_log2 (of_int n)) (- 1022)"
    and "max (floor_log2 (of_int n)) (- 1022) \<noteq> 1023"
    by linarith+
  then show ?thesis
    unfolding round_mag_def Let_def by simp
qed

text \<open>\<^verbatim>\<open>float(n)\<close> succeeds on every integer below \<open>2^1023\<close> in magnitude.\<close>

lemma float_of_int_Inr:
  assumes "\<bar>n\<bar> < 2 ^ 1023"
  shows "\<exists>f. float_of_int n = Inr f"
proof (cases "n = 0")
  case True
  then show ?thesis by (simp add: float_of_int_def)
next
  case False
  then have "0 < \<bar>n\<bar>" by simp
  from round_mag_of_int_Some [OF this assms] obtain m
    where "round_mag (of_int \<bar>n\<bar>) = Some m" ..
  then show ?thesis using False by (simp add: float_of_int_def)
qed

lemma py_float_number:
  assumes "isinstance_int_float v"
  shows "(\<exists>f. py_float v = Inr f) \<or>
         py_float v = Inl (OverflowError ''int too large to convert to float'')"
  using assms
  by (cases v) (auto simp: float_of_int_def split: option.splits)

section \<open>Properties of the validator and of the loop\<close>

lemma validate_item_Inr_iff:
  "validate_item item = Inr () \<longleftrightarrow>
     (\<exists>d i s v. item = JDict d \<and>
        map_of d (py_lit ''id'') = Some i \<and> isinstance_int i \<and>
        map_of d (py_lit ''name'') = Some (JStr s) \<and> strip s \<noteq> [] \<and>
        map_of d (py_lit ''value'') = Some v \<and> isinstance_int_float v)"
  by (cases item) (auto simp: bad_name_iff split: option.splits)

text \<open>
  After \<open>validate_item\<close> has accepted an element, \<^verbatim>\<open>item["value"]\<close> is there and is a
  number, so \<open>float\<close> is never called on a \<^verbatim>\<open>str\<close>.
\<close>

lemma process_items_value_number:
  assumes "validate_item item = Inr ()"
  shows "\<exists>v. getitem item ''value'' = Inr v \<and> isinstance_int_float v"
  using assms by (auto simp: validate_item_Inr_iff)

lemma process_items_ok:
  assumes "list_all2 (\<lambda>item f. validate_item item = Inr () \<and> item_float item = Inr f) items fls"
  shows "process_items tot cnt items = Inr (foldl fadd tot fls, cnt + int (length items))"
  using assms
proof (induction items fls arbitrary: tot cnt rule: list_all2_induct)
  case Nil
  then show ?case by simp
next
  case (Cons item items f fls)
  then show ?case
    by (auto simp: item_float_def split: sum.splits)
qed

lemma process_items_abort:
  assumes "list_all2 (\<lambda>item f. validate_item item = Inr () \<and> item_float item = Inr f) pre fls"
    and "validate_item bad = Inl e"
  shows "process_items tot cnt (pre @ bad # rest) = Inl e"
  using assms
proof (induction pre fls arbitrary: tot cnt rule: list_all2_induct)
  case Nil
  then show ?case by simp
next
  case (Cons item items f fls)
  then show ?case
    by (auto simp: item_float_def split: sum.splits)
qed

lemma list_all2_valid:
  assumes "\<forall>item\<in>set items. validate_item item = Inr ()"
    and "map item_float items = map Inr fls"
  shows "list_all2 (\<lambda>item f. validate_item item = Inr () \<and> item_float item = Inr f) items fls"
proof -
  have len: "length items = length fls"
    using assms(2) by (metis length_map)
  moreover have "validate_item (items ! k) = Inr () \<and> item_float (items ! k) = Inr (fls ! k)"
    if "k < length items" for k
  proof -
    have "map item_float items ! k = map Inr fls ! k"
      using assms(2) by simp
    then have "item_float (items ! k) = Inr (fls ! k)"
      using that len by simp
    then show ?thesis
      using assms(1) that by simp
  qed
  ultimately show ?thesis
    by (simp add: list_all2_conv_all_nth)
qed

text \<open>On accepted elements the loop reads nothing but the value fields.\<close>

lemma process_items_same_values:
  assumes "list_all2 (\<lambda>a b. validate_item a = Inr () \<and> validate_item b = Inr () \<and>
             getitem a ''value'' = getitem b ''value'') items items'"
  shows "process_items tot cnt items = process_items tot cnt items'"
  using assms
proof (induction items items' arbitrary: tot cnt rule: list_all2_induct)
  case Nil
  then show ?case by simp
next
  case (Cons a items b items')
  then show ?case
    by (simp split: sum.splits)
qed

text \<open>The loop over a list in two parts.\<close>

lemma process_items_append:
  "process_items tot cnt (xs @ ys) =
     (case process_items tot cnt xs of
        Inl e \<Rightarrow> Inl e
      | Inr (t, c) \<Rightarrow> process_items t c ys)"
  by (induction xs arbitrary: tot cnt) (simp_all split: sum.splits)

text \<open>
  An accepted element lets the loop go on, or ends it with the \<^verbatim>\<open>OverflowError\<close> of
  \<^verbatim>\<open>float\<close>; nothing else can happen to it.
\<close>

lemma item_float_valid:
  assumes "validate_item item = Inr ()"
  shows "(\<exists>f. item_float item = Inr f) \<or>
         item_float item = Inl (OverflowError ''int too large to convert to float'')"
proof -
  from process_items_value_number [OF assms] obtain v
    where v: "getitem item ''value'' = Inr v" "isinstance_int_float v"
    by blast
  from py_float_number [OF v(2)] show ?thesis
    using v(1) by (simp add: item_float_def)
qed

lemma process_items_Cons_valid:
  assumes "validate_item item = Inr ()"
  shows "process_items tot cnt (item # rest) =
           (case item_float item of
              Inl e \<Rightarrow> Inl e
            | Inr f \<Rightarrow> process_items (fadd tot f) (cnt + 1) rest)"
  using assms by (simp add: item_float_def split: sum.splits)

lemma process_items_first_invalid:
  assumes "\<forall>item\<in>set pre. validate_item item = Inr ()"
    and "validate_item bad = Inl e"
  shows "process_items tot cnt (pre @ bad # rest) = Inl e \<or>
         process_items tot cnt (pre @ bad # rest) =
           Inl (OverflowError ''int too large to convert to float'')"
  using assms(1)
proof (induction pre arbitrary: tot cnt)
  case Nil
  then show ?case using assms(2) by simp
next
  case (Cons item pre)
  then have valid: "validate_item item = Inr ()" by simp
  have unfold: "process_items tot cnt ((item # pre) @ bad # rest) =
      (case item_float item of
         Inl e \<Rightarrow> Inl e
       | Inr f \<Rightarrow> process_items (fadd tot f) (cnt + 1) (pre @ bad # rest))"
    unfolding append_Cons by (rule process_items_Cons_valid [OF valid])
  from item_float_valid [OF valid] show ?case
  proof
    assume "\<exists>f. item_float item = Inr f"
    then obtain f where "item_float item = Inr f" ..
    then have "process_items tot cnt ((item # pre) @ bad # rest) =
               process_items (fadd tot f) (cnt + 1) (pre @ bad # rest)"
      by (simp only: unfold sum.case)
    then show ?thesis
      using Cons.IH [of "fadd tot f" "cnt + 1"] Cons.prems by simp
  next
    assume "item_float item = Inl (OverflowError ''int too large to convert to float'')"
    then have "process_items tot cnt ((item # pre) @ bad # rest) =
               Inl (OverflowError ''int too large to convert to float'')"
      by (simp only: unfold sum.case)
    then show ?thesis by (rule disjI2)
  qed
qed

text \<open>A list with a rejected element has a first one.\<close>

lemma first_invalid_split:
  assumes "\<exists>item\<in>set items. validate_item item \<noteq> Inr ()"
  shows "\<exists>pre bad rest e. items = pre @ bad # rest \<and>
           (\<forall>item\<in>set pre. validate_item item = Inr ()) \<and> validate_item bad = Inl e"
proof -
  from split_list_first_prop [OF assms] obtain pre bad rest where
    s: "items = pre @ bad # rest" "validate_item bad \<noteq> Inr ()"
       "\<forall>item\<in>set pre. \<not> validate_item item \<noteq> Inr ()"
    by blast
  from s(2) obtain e where "validate_item bad = Inl e"
    by (cases "validate_item bad") auto
  with s(1,3) show ?thesis by auto
qed

lemma process_items_invalid:
  assumes "\<exists>item\<in>set items. validate_item item \<noteq> Inr ()"
  shows "\<exists>e. process_items tot cnt items = Inl e"
proof -
  from first_invalid_split [OF assms] obtain pre bad rest e where
    "items = pre @ bad # rest" "\<forall>item\<in>set pre. validate_item item = Inr ()"
    "validate_item bad = Inl e"
    by blast
  then show ?thesis
    using process_items_first_invalid [of pre bad e tot cnt rest] by auto
qed


section \<open>The summary of a valid list\<close>

text \<open>
  Claim C1, as amended. When the decoded content is a list whose elements are all
  accepted by \<open>validate_item\<close>, and \<^verbatim>\<open>float\<close> succeeds on the value of each (\<open>fls\<close> are the
  coerced values, in order), \<open>process_file\<close> returns a summary: \<open>count\<close> is the number of
  elements, \<open>total_value\<close> is the floating-point sum of \<open>fls\<close> taken from \<^verbatim>\<open>0.0\<close> in list
  order, and \<open>avg_value\<close> is \<^verbatim>\<open>total_value / count\<close> when \<open>count\<close> is positive and \<^verbatim>\<open>0.0\<close>
  otherwise. A Python list holds fewer than \<open>2^63\<close> elements.

  Without the condition on \<^verbatim>\<open>float\<close> the claim fails: \<open>validate_item\<close> accepts any
  integer as a number, and \<^verbatim>\<open>float\<close> raises \<^verbatim>\<open>OverflowError\<close> on one as large as \<open>2^1024\<close>.
\<close>

theorem valid_list_summary:
  assumes "fs path = Inr (JList items)"
    and "\<forall>item\<in>set items. validate_item item = Inr ()"
    and "map item_float items = map Inr fls"
    and "length items < 2 ^ 63"
  shows "\<exists>s. process_file fs path = Inr s \<and>
           count s = int (length items) \<and>
           total_value s = foldl fadd (FFin False 0) fls \<and>
           (if 0 < count s then py_truediv (total_value s) (count s) = Inr (avg_value s)
            else avg_value s = FFin False 0)"
proof -
  let ?tot = "foldl fadd (FFin False 0) fls"
  let ?n = "int (length items)"
  have loop: "process_items (FFin False 0) 0 items = Inr (?tot, ?n)"
    using process_items_ok [OF list_all2_valid [OF assms(2,3)], of "FFin False 0" 0] by simp
  show ?thesis
  proof (cases "items = []")
    case True
    then show ?thesis
      using assms(1) loop by (simp add: process_file_def)
  next
    case False
    have "\<bar>?n\<bar> < 2 ^ 1023"
    proof -
      have "?n < 2 ^ 63" using assms(4) by (metis of_nat_less_numeral_power_cancel_iff)
      also have "(2::int) ^ 63 < 2 ^ 1023" by simp
      finally show ?thesis by simp
    qed
    from float_of_int_Inr [OF this] obtain b where b: "float_of_int ?n = Inr b" ..
    have "py_truediv ?tot ?n = Inr (fdiv ?tot b)"
      using False b by (simp add: py_truediv_def)
    then show ?thesis
      using assms(1) loop False by (simp add: process_file_def)
  qed
qed

text \<open>
  The input of scenario B: two records with values \<^verbatim>\<open>5.0\<close> and \<^verbatim>\<open>15.0\<close> give count 2,
  total \<^verbatim>\<open>20.0\<close> and average \<^verbatim>\<open>10.0\<close>.
\<close>

theorem valid_list_summary_witness:
  "process_file
     (one_file ''in.json''
        (JList [record_of (JInt 1) (JStr (py_lit ''a'')) (JFloat (FFin False 5)),
                record_of (JInt 2) (JStr (py_lit ''b'')) (JFloat (FFin False 15))]))
     ''in.json'' = Inr \<lparr>count = 2, total_value = FFin False 20, avg_value = FFin False 10\<rparr>"
proof -
  let ?a = "record_of (JInt 1) (JStr (py_lit ''a'')) (JFloat (FFin False 5))"
  let ?b = "record_of (JInt 2) (JStr (py_lit ''b'')) (JFloat (FFin False 15))"
  have loaded: "one_file ''in.json'' (JList [?a, ?b]) ''in.json'' = Inr (JList [?a, ?b])"
    by (simp add: one_file_def)
  have valid: "\<forall>item\<in>set [?a, ?b]. validate_item item = Inr ()"
    by (simp add: record_of_def py_lit_def strip_def isspace_def)
  have floats: "map item_float [?a, ?b] = map Inr [FFin False 5, FFin False 15]"
    by (simp add: item_float_def record_of_def py_lit_def)
  have len: "length [?a, ?b] < 2 ^ 63"
    by simp
  have sum: "foldl fadd (FFin False 0) [FFin False 5, FFin False 15] = FFin False 20"
    by code_simp
  have avg: "py_truediv (FFin False 20) 2 = Inr (FFin False 10)"
    by code_simp
  from valid_list_summary [of "one_file ''in.json'' (JList [?a, ?b])" "''in.json''" "[?a, ?b]"
      "[FFin False 5, FFin False 15]", OF loaded valid floats len]
  obtain s where
    s: "process_file (one_file ''in.json'' (JList [?a, ?b])) ''in.json'' = Inr s"
      "count s = 2" "total_value s = FFin False 20"
      "py_truediv (total_value s) (count s) = Inr (avg_value s)"
    using sum by auto
  from s(2-4) avg have "s = \<lparr>count = 2, total_value = FFin False 20, avg_value = FFin False 10\<rparr>"
    by simp
  with s(1) show ?thesis by simp
qed

text \<open>
  A record whose value is the integer \<open>2^1024\<close> is valid, and the run on the list holding
  it ends in \<^verbatim>\<open>OverflowError\<close>, not in a summary.
\<close>

theorem valid_list_summary_counterexample:
  "validate_item (record_of (JInt 1) (JStr (py_lit ''a'')) (JInt (2 ^ 1024))) = Inr () \<and>
   process_file
     (one_file ''in.json'' (JList [record_of (JInt 1) (JStr (py_lit ''a'')) (JInt (2 ^ 1024))]))
     ''in.json'' = Inl (OverflowError ''int too large to convert to float'')"
proof -
  have "float_of_int (2 ^ 1024) = Inl (OverflowError ''int too large to convert to float'')"
    by code_simp
  then show ?thesis
    by (simp add: process_file_def one_file_def record_of_def py_lit_def strip_def isspace_def)
qed


section \<open>The checks of the validator\<close>

text \<open>
  Claim C2, as amended. For a mapping that has the key \<^verbatim>\<open>id\<close>, \<open>validate_item\<close> fails
  with the wrong-type error for \<^verbatim>\<open>id\<close> exactly when the value there is neither an integer
  nor a boolean: a floating-point \<^verbatim>\<open>id\<close> is rejected, a boolean one passes the check,
  since \<^verbatim>\<open>isinstance(True, int)\<close> holds.
\<close>

theorem id_check_int_or_bool:
  assumes "map_of d (py_lit ''id'') = Some i"
  shows "(validate_item (JDict d) = Inl (ValueError ''field 'id' must be int'')) =
           (\<not> ((\<exists>n. i = JInt n) \<or> (\<exists>b. i = JBool b)))"
  using assms by (cases i) (auto simp: quoted_def split: option.splits)

theorem id_check_int_or_bool_witness:
  "validate_item (record_of (JFloat (FFin False (3 / 2))) (JStr (py_lit ''a'')) (JInt 1)) =
     Inl (ValueError ''field 'id' must be int'')"
  using id_check_int_or_bool [of "[(py_lit ''id'', JFloat (FFin False (3 / 2))),
      (py_lit ''name'', JStr (py_lit ''a'')), (py_lit ''value'', JInt 1)]"
      "JFloat (FFin False (3 / 2))"]
  by (simp add: record_of_def py_lit_def)

text \<open>A record whose \<^verbatim>\<open>id\<close> is \<^verbatim>\<open>true\<close> is accepted.\<close>

theorem id_check_int_or_bool_counterexample:
  "validate_item (record_of (JBool True) (JStr (py_lit ''a'')) (JInt 1)) = Inr ()"
  by (simp add: record_of_def py_lit_def strip_def isspace_def)

text \<open>
  Claim C3. \<open>validate_item\<close> reports the first check that fails in the fixed order:
  object shape, \<^verbatim>\<open>id\<close> present, \<^verbatim>\<open>id\<close> type, \<^verbatim>\<open>name\<close> present, \<^verbatim>\<open>name\<close> a non-empty
  string, \<^verbatim>\<open>value\<close> present, \<^verbatim>\<open>value\<close> type; it accepts when none fails.
\<close>

theorem validate_item_first_failure:
  "validate_item item = first_failure check_order item"
proof (cases item)
  case (JDict d)
  show ?thesis
    unfolding JDict check_order_def
    by (cases "map_of d (py_lit ''id'')"; cases "map_of d (py_lit ''name'')";
        cases "map_of d (py_lit ''value'')")
      (auto simp: bad_name_iff elim: nonempty_text.elims)
qed (simp_all add: check_order_def)

text \<open>
  A mapping without \<^verbatim>\<open>id\<close>, with a number as \<^verbatim>\<open>name\<close> and without \<^verbatim>\<open>value\<close> fails three
  checks; the missing \<^verbatim>\<open>id\<close> is reported.
\<close>

theorem validate_item_first_failure_witness:
  "validate_item (JDict [(py_lit ''name'', JInt 3)]) =
     Inl (ValueError (''missing field '' @ quoted ''id'')) \<and>
   first_failure check_order (JDict [(py_lit ''name'', JInt 3)]) =
     Inl (ValueError (''missing field '' @ quoted ''id''))"
  using validate_item_first_failure [of "JDict [(py_lit ''name'', JInt 3)]"]
  by (simp add: py_lit_def)

text \<open>
  Claim C7. Once the checks on \<^verbatim>\<open>id\<close> have passed and the key \<^verbatim>\<open>name\<close> is present, the
  check on \<^verbatim>\<open>name\<close> fails, with its own message, exactly when the value is not a string
  that is non-empty after \<^verbatim>\<open>strip\<close>; and a string is non-empty after \<^verbatim>\<open>strip\<close> exactly
  when it has a code point that is not whitespace.
\<close>

theorem name_check_nonempty_after_strip:
  assumes "map_of d (py_lit ''id'') = Some i" and "isinstance_int i"
    and "map_of d (py_lit ''name'') = Some n"
  shows "((validate_item (JDict d) = Inl (ValueError ''field 'name' must be a non-empty string''))
            = (\<not> (\<exists>s. n = JStr s \<and> strip s \<noteq> []))) \<and>
         (\<forall>s. strip s \<noteq> [] \<longleftrightarrow> (\<exists>c\<in>set s. \<not> isspace c))"
  using assms by (auto simp: bad_name_iff strip_Nil_iff quoted_def split: option.splits)

theorem name_check_nonempty_after_strip_witness:
  "validate_item (record_of (JInt 1) (JStr (py_lit ''   '')) (JInt 1)) =
     Inl (ValueError ''field 'name' must be a non-empty string'')"
  using name_check_nonempty_after_strip [of "[(py_lit ''id'', JInt 1),
      (py_lit ''name'', JStr (py_lit ''   '')), (py_lit ''value'', JInt 1)]"
      "JInt 1" "JStr (py_lit ''   '')"]
  by (simp add: record_of_def py_lit_def strip_def isspace_def)


section \<open>Failure of a run\<close>

text \<open>
  Claim C4, as amended. A run on a list with an element that \<open>validate_item\<close> rejects
  returns no summary: \<open>process_file\<close> raises, standard output stays empty, the
  diagnostic goes to standard error and the exit status is 1. Let \<open>bad\<close> be the first
  rejected element, the elements \<open>pre\<close> before it all being accepted. The exception
  raised is the failure of \<open>bad\<close> or the \<^verbatim>\<open>OverflowError\<close> of \<^verbatim>\<open>float\<close> on an element of
  \<open>pre\<close>; when \<^verbatim>\<open>float\<close> succeeds on the value of each of \<open>pre\<close>, it is exactly the
  failure of \<open>bad\<close>, whatever follows \<open>bad\<close> in the list (the elements after it are not
  looked at).

  Without the condition on \<^verbatim>\<open>float\<close> the last part of the claim fails: an accepted
  element before \<open>bad\<close> whose value is an integer as large as \<open>2^1024\<close> ends the run first,
  with \<^verbatim>\<open>OverflowError\<close>.
\<close>

theorem first_invalid_element_aborts:
  "(fs path = Inr (JList items) \<and> (\<exists>item\<in>set items. validate_item item \<noteq> Inr ()) \<longrightarrow>
      (\<exists>e'. process_file fs path = Inl e' \<and>
         main fs \<lparr>command = ''process'', input = path\<rparr> =
           \<lparr>exit_code = 1, stdout = [], stderr = [Text (''Error: '' @ exc_str e')]\<rparr>)) \<and>
   (fs path = Inr (JList (pre @ bad # rest)) \<and> fs' path' = Inr (JList (pre @ bad # rest')) \<and>
    (\<forall>item\<in>set pre. validate_item item = Inr ()) \<and> validate_item bad = Inl e \<longrightarrow>
      (process_file fs path = Inl e \<or>
       process_file fs path = Inl (OverflowError ''int too large to convert to float'')) \<and>
      (map item_float pre = map Inr fls \<longrightarrow>
         process_file fs path = Inl e \<and> process_file fs' path' = Inl e))"
proof (intro conjI impI)
  assume a: "fs path = Inr (JList items) \<and> (\<exists>item\<in>set items. validate_item item \<noteq> Inr ())"
  then obtain e' where "process_items (FFin False 0) 0 items = Inl e'"
    using process_items_invalid [of items "FFin False 0" 0] by blast
  with a have "process_file fs path = Inl e'"
    by (simp add: process_file_def)
  then show "\<exists>e'. process_file fs path = Inl e' \<and>
         main fs \<lparr>command = ''process'', input = path\<rparr> =
           \<lparr>exit_code = 1, stdout = [], stderr = [Text (''Error: '' @ exc_str e')]\<rparr>"
    by (simp add: main_def)
next
  assume a: "fs path = Inr (JList (pre @ bad # rest)) \<and>
    fs' path' = Inr (JList (pre @ bad # rest')) \<and>
    (\<forall>item\<in>set pre. validate_item item = Inr ()) \<and> validate_item bad = Inl e"
  then have "process_items (FFin False 0) 0 (pre @ bad # rest) = Inl e \<or>
             process_items (FFin False 0) 0 (pre @ bad # rest) =
               Inl (OverflowError ''int too large to convert to float'')"
    using process_items_first_invalid [of pre bad e "FFin False 0" 0 rest] by blast
  with a show "process_file fs path = Inl e \<or>
       process_file fs path = Inl (OverflowError ''int too large to convert to float'')"
    by (auto simp: process_file_def)
next
  assume a: "fs path = Inr (JList (pre @ bad # rest)) \<and>
    fs' path' = Inr (JList (pre @ bad # rest')) \<and>
    (\<forall>item\<in>set pre. validate_item item = Inr ()) \<and> validate_item bad = Inl e"
    and floats: "map item_float pre = map Inr fls"
  from a have valid: "\<forall>item\<in>set pre. validate_item item = Inr ()"
    and bad: "validate_item bad = Inl e"
    by simp_all
  have stop: "process_items (FFin False 0) 0 (pre @ bad # r) = Inl e" for r
    by (rule process_items_abort [OF list_all2_valid [OF valid floats] bad])
  from stop [of rest] a show "process_file fs path = Inl e"
    by (simp add: process_file_def)
  from stop [of rest'] a show "process_file fs' path' = Inl e"
    by (simp add: process_file_def)
qed

text \<open>
  A valid record, then one without \<^verbatim>\<open>value\<close>, then \<^verbatim>\<open>null\<close>: the missing \<^verbatim>\<open>value\<close> is
  reported, as it is when nothing follows, and the run prints no summary.
\<close>

theorem first_invalid_element_aborts_witness:
  "process_file
     (one_file ''in.json''
        (JList [record_of (JInt 1) (JStr (py_lit ''valid'')) (JFloat (FFin False 10)),
                JDict [(py_lit ''id'', JInt 2), (py_lit ''name'', JStr (py_lit ''b''))],
                JNull]))
     ''in.json'' = Inl (ValueError (''missing field '' @ quoted ''value'')) \<and>
   process_file
     (one_file ''in.json''
        (JList [record_of (JInt 1) (JStr (py_lit ''valid'')) (JFloat (FFin False 10)),
                JDict [(py_lit ''id'', JInt 2), (py_lit ''name'', JStr (py_lit ''b''))]]))
     ''in.json'' = Inl (ValueError (''missing field '' @ quoted ''value'')) \<and>
   main
     (one_file ''in.json''
        (JList [record_of (JInt 1) (JStr (py_lit ''valid'')) (JFloat (FFin False 10)),
                JDict [(py_lit ''id'', JInt 2), (py_lit ''name'', JStr (py_lit ''b''))],
                JNull]))
     \<lparr>command = ''process'', input = ''in.json''\<rparr> =
     \<lparr>exit_code = 1, stdout = [],
      stderr = [Text (''Error: missing field '' @ quoted ''value'')]\<rparr>"
proof -
  let ?a = "record_of (JInt 1) (JStr (py_lit ''valid'')) (JFloat (FFin False 10))"
  let ?bad = "JDict [(py_lit ''id'', JInt 2), (py_lit ''name'', JStr (py_lit ''b''))]"
  let ?fs = "one_file ''in.json'' (JList [?a, ?bad, JNull])"
  let ?fs' = "one_file ''in.json'' (JList [?a, ?bad])"
  let ?e = "ValueError (''missing field '' @ quoted ''value'')"
  have loaded: "?fs ''in.json'' = Inr (JList ([?a] @ ?bad # [JNull]))"
    by (simp add: one_file_def)
  have loaded': "?fs' ''in.json'' = Inr (JList ([?a] @ ?bad # []))"
    by (simp add: one_file_def)
  have valid: "\<forall>item\<in>set [?a]. validate_item item = Inr ()"
    by (simp add: record_of_def py_lit_def strip_def isspace_def)
  have floats: "map item_float [?a] = map Inr [FFin False 10]"
    by (simp add: item_float_def record_of_def py_lit_def)
  have bad: "validate_item ?bad = Inl ?e"
    by (simp add: py_lit_def strip_def isspace_def)
  have invalid: "\<exists>item\<in>set ([?a] @ ?bad # [JNull]). validate_item item \<noteq> Inr ()"
    by simp
  note inst = first_invalid_element_aborts [of ?fs "''in.json''" "[?a] @ ?bad # [JNull]"
      "[?a]" ?bad "[JNull]" ?fs' "''in.json''" "[]" ?e "[FFin False 10]"]
  from inst loaded loaded' valid floats bad have
    exact: "process_file ?fs ''in.json'' = Inl ?e" "process_file ?fs' ''in.json'' = Inl ?e"
    by blast+
  from inst loaded invalid obtain e' where
    e': "process_file ?fs ''in.json'' = Inl e'"
      "main ?fs \<lparr>command = ''process'', input = ''in.json''\<rparr> =
         \<lparr>exit_code = 1, stdout = [], stderr = [Text (''Error: '' @ exc_str e')]\<rparr>"
    by blast
  from e'(1) exact(1) have "e' = ?e" by simp
  with e'(2) exact show ?thesis by simp
qed

text \<open>
  An accepted record with the value \<open>2^1024\<close>, then \<^verbatim>\<open>null\<close>: the run does not end with
  the failure of \<^verbatim>\<open>null\<close>, the first invalid element.
\<close>

theorem first_invalid_element_aborts_counterexample:
  "validate_item (record_of (JInt 1) (JStr (py_lit ''a'')) (JInt (2 ^ 1024))) = Inr () \<and>
   validate_item JNull = Inl (ValueError ''item must be an object'') \<and>
   process_file
     (one_file ''in.json''
        (JList [record_of (JInt 1) (JStr (py_lit ''a'')) (JInt (2 ^ 1024)), JNull]))
     ''in.json'' = Inl (OverflowError ''int too large to convert to float'')"
proof -
  have "float_of_int (2 ^ 1024) = Inl (OverflowError ''int too large to convert to float'')"
    by code_simp
  then show ?thesis
    by (simp add: process_file_def one_file_def record_of_def py_lit_def strip_def isspace_def)
qed

text \<open>
  Claim C5. A run of the \<^verbatim>\<open>process\<close> subcommand has exactly one of two outcomes: exit
  status 0 with the summary as the one line of standard output and nothing on standard
  error, or exit status 1 with the one line \<^verbatim>\<open>Error: <message>\<close> on standard error and
  nothing on standard output. No run writes to both streams.
\<close>

theorem main_process_binary_outcome:
  assumes "command a = ''process''"
  shows "((\<exists>s. process_file fs (input a) = Inr s \<and>
             main fs a = \<lparr>exit_code = 0, stdout = [Dumps s], stderr = []\<rparr>) \<or>
          (\<exists>e. process_file fs (input a) = Inl e \<and>
             main fs a =
               \<lparr>exit_code = 1, stdout = [], stderr = [Text (''Error: '' @ exc_str e)]\<rparr>)) \<and>
         \<not> ((\<exists>s. main fs a = \<lparr>exit_code = 0, stdout = [Dumps s], stderr = []\<rparr>) \<and>
            (\<exists>e. main fs a =
               \<lparr>exit_code = 1, stdout = [], stderr = [Text (''Error: '' @ exc_str e)]\<rparr>)) \<and>
         \<not> (stdout (main fs a) \<noteq> [] \<and> stderr (main fs a) \<noteq> [])"
  using assms by (cases "process_file fs (input a)") (simp_all add: main_def)

text \<open>A run on a path that does not exist.\<close>

theorem main_process_binary_outcome_witness:
  "main (one_file ''in.json'' (JList [])) \<lparr>command = ''process'', input = ''gone.json''\<rparr> =
     \<lparr>exit_code = 1, stdout = [],
      stderr = [Text (''Error: [Errno 2] No such file or directory: '' @ quoted ''gone.json'')]\<rparr>"
  using main_process_binary_outcome [of "\<lparr>command = ''process'', input = ''gone.json''\<rparr>"
      "one_file ''in.json'' (JList [])"]
  by (simp add: process_file_def one_file_def)

text \<open>
  Claim C8. When the decoded content is not a list, \<open>process_file\<close> fails with
  \<^verbatim>\<open>input JSON must be a list\<close>, and the run prints that diagnostic and exits with status 1.
\<close>

theorem not_a_list_rejected:
  assumes "fs path = Inr data" and "\<not> (\<exists>items. data = JList items)"
  shows "process_file fs path = Inl (ValueError ''input JSON must be a list'') \<and>
         main fs \<lparr>command = ''process'', input = path\<rparr> =
           \<lparr>exit_code = 1, stdout = [], stderr = [Text ''Error: input JSON must be a list'']\<rparr>"
  using assms by (cases data) (simp_all add: process_file_def main_def)

text \<open>The input of scenario D, a single object.\<close>

theorem not_a_list_rejected_witness:
  "process_file
     (one_file ''in.json'' (record_of (JInt 1) (JStr (py_lit ''test'')) (JInt 1)))
     ''in.json'' = Inl (ValueError ''input JSON must be a list'') \<and>
   main (one_file ''in.json'' (record_of (JInt 1) (JStr (py_lit ''test'')) (JInt 1)))
     \<lparr>command = ''process'', input = ''in.json''\<rparr> =
     \<lparr>exit_code = 1, stdout = [], stderr = [Text ''Error: input JSON must be a list'']\<rparr>"
  using not_a_list_rejected [of
      "one_file ''in.json'' (record_of (JInt 1) (JStr (py_lit ''test'')) (JInt 1))" "''in.json''"
      "record_of (JInt 1) (JStr (py_lit ''test'')) (JInt 1)"]
  by (simp add: one_file_def record_of_def)

section \<open>Particular inputs\<close>

text \<open>
  Claim C6. On the empty list \<open>process_file\<close> returns count 0, total \<^verbatim>\<open>0.0\<close> and average
  \<^verbatim>\<open>0.0\<close>, without dividing, and the run prints that summary and exits with status 0.
\<close>

theorem empty_list_summary:
  assumes "fs path = Inr (JList [])"
  shows "process_file fs path =
           Inr \<lparr>count = 0, total_value = FFin False 0, avg_value = FFin False 0\<rparr> \<and>
         main fs \<lparr>command = ''process'', input = path\<rparr> =
           \<lparr>exit_code = 0,
            stdout = [Dumps \<lparr>count = 0, total_value = FFin False 0, avg_value = FFin False 0\<rparr>],
            stderr = []\<rparr>"
  using assms by (simp add: process_file_def main_def)

theorem empty_list_summary_witness:
  "process_file (one_file ''in.json'' (JList [])) ''in.json'' =
     Inr \<lparr>count = 0, total_value = FFin False 0, avg_value = FFin False 0\<rparr> \<and>
   exit_code (main (one_file ''in.json'' (JList []))
     \<lparr>command = ''process'', input = ''in.json''\<rparr>) = 0"
  using empty_list_summary [of "one_file ''in.json'' (JList [])" "''in.json''"]
  by (simp add: one_file_def)

text \<open>
  Claim C9. With an integer \<^verbatim>\<open>id\<close> and a \<^verbatim>\<open>name\<close> that is non-empty after \<^verbatim>\<open>strip\<close>, a
  boolean \<^verbatim>\<open>value\<close> is accepted as a number and coerced to \<^verbatim>\<open>1.0\<close> (for \<^verbatim>\<open>true\<close>) or
  \<^verbatim>\<open>0.0\<close> (for \<^verbatim>\<open>false\<close>). The loop over such an element returns the total with that
  float added and the count with 1 added, from any total and count, also those the loop
  has reached on the elements before it; alone in the list, the element gives a summary
  with count 1 and with \<^verbatim>\<open>0.0\<close> plus that float as total.
\<close>

theorem boolean_value_counts_as_number:
  assumes "map_of d (py_lit ''id'') = Some (JInt i)"
    and "map_of d (py_lit ''name'') = Some (JStr s)" and "strip s \<noteq> []"
    and "map_of d (py_lit ''value'') = Some (JBool b)"
  shows "validate_item (JDict d) = Inr () \<and>
         item_float (JDict d) = Inr (FFin False (if b then 1 else 0)) \<and>
         process_items tot cnt [JDict d] =
           Inr (fadd tot (FFin False (if b then 1 else 0)), cnt + 1) \<and>
         (process_items tot cnt pre = Inr (t, c) \<longrightarrow>
            process_items tot cnt (pre @ [JDict d]) =
              Inr (fadd t (FFin False (if b then 1 else 0)), c + 1)) \<and>
         (fs path = Inr (JList [JDict d]) \<longrightarrow>
            (\<exists>r. process_file fs path = Inr r \<and> count r = 1 \<and>
               total_value r = fadd (FFin False 0) (FFin False (if b then 1 else 0))))"
proof -
  have valid: "validate_item (JDict d) = Inr ()"
    using assms by simp
  have coerced: "item_float (JDict d) = Inr (FFin False (if b then 1 else 0))"
    using assms by (simp add: item_float_def)
  have step: "process_items u k [JDict d] =
                Inr (fadd u (FFin False (if b then 1 else 0)), k + 1)" for u k
    using assms by simp
  have after: "process_items tot cnt (pre @ [JDict d]) =
                 Inr (fadd t (FFin False (if b then 1 else 0)), c + 1)"
    if "process_items tot cnt pre = Inr (t, c)"
    using that step [of t c] by (simp add: process_items_append)
  have alone: "\<exists>r. process_file fs path = Inr r \<and> count r = 1 \<and>
                 total_value r = fadd (FFin False 0) (FFin False (if b then 1 else 0))"
    if loaded: "fs path = Inr (JList [JDict d])"
  proof -
    from float_of_int_Inr [of 1] obtain one where one: "float_of_int 1 = Inr one"
      by auto
    show ?thesis
      using loaded step [of "FFin False 0" 0] one
      by (simp add: process_file_def py_truediv_def)
  qed
  from valid coerced step after alone show ?thesis
    by blast
qed

text \<open>A record with the value \<^verbatim>\<open>true\<close>, alone and after a record with the value \<^verbatim>\<open>5.0\<close>.\<close>

theorem boolean_value_counts_as_number_witness:
  "validate_item (record_of (JInt 1) (JStr (py_lit ''a'')) (JBool True)) = Inr () \<and>
   process_items (FFin False 0) 0 [record_of (JInt 1) (JStr (py_lit ''a'')) (JBool True)] =
     Inr (FFin False 1, 1) \<and>
   process_items (FFin False 0) 0
     [record_of (JInt 0) (JStr (py_lit ''z'')) (JFloat (FFin False 5)),
      record_of (JInt 1) (JStr (py_lit ''a'')) (JBool True)] = Inr (FFin False 6, 2)"
proof -
  let ?d = "[(py_lit ''id'', JInt 1), (py_lit ''name'', JStr (py_lit ''a'')),
             (py_lit ''value'', JBool True)]"
  let ?z = "record_of (JInt 0) (JStr (py_lit ''z'')) (JFloat (FFin False 5))"
  have one: "fadd (FFin False 0) (FFin False 1) = FFin False 1"
    by code_simp
  have five: "fadd (FFin False 0) (FFin False 5) = FFin False 5"
    by code_simp
  have six: "fadd (FFin False 5) (FFin False 1) = FFin False 6"
    by code_simp
  have before: "process_items (FFin False 0) 0 [?z] = Inr (FFin False 5, 1)"
    using five by (simp add: record_of_def py_lit_def strip_def isspace_def)
  have "map_of ?d (py_lit ''id'') = Some (JInt 1)"
    and "map_of ?d (py_lit ''name'') = Some (JStr (py_lit ''a''))"
    and "strip (py_lit ''a'') \<noteq> []"
    and "map_of ?d (py_lit ''value'') = Some (JBool True)"
    by (simp_all add: py_lit_def strip_def isspace_def)
  from boolean_value_counts_as_number [OF this, of "FFin False 0" 0 "[?z]" "FFin False 5" 1]
  show ?thesis
    using one six before by (simp add: record_of_def py_lit_def strip_def isspace_def)
qed

text \<open>
  Claim C10. Adding a key other than \<^verbatim>\<open>id\<close>, \<^verbatim>\<open>name\<close> and \<^verbatim>\<open>value\<close> to an accepted mapping
  leaves it accepted and leaves its value field as it was; and two lists of accepted
  elements with the same value fields, position by position, give the same result, so
  nothing but the value fields reaches the summary.
\<close>

theorem extra_keys_ignored:
  "(validate_item (JDict d) = Inr () \<and>
      k \<noteq> py_lit ''id'' \<and> k \<noteq> py_lit ''name'' \<and> k \<noteq> py_lit ''value'' \<longrightarrow>
      validate_item (JDict ((k, x) # d)) = Inr () \<and>
      getitem (JDict ((k, x) # d)) ''value'' = getitem (JDict d) ''value'') \<and>
   ((\<forall>item\<in>set items. validate_item item = Inr ()) \<and>
    (\<forall>item\<in>set items'. validate_item item = Inr ()) \<and>
    map (\<lambda>item. getitem item ''value'') items = map (\<lambda>item. getitem item ''value'') items' \<and>
    fs path = Inr (JList items) \<and> fs' path' = Inr (JList items') \<longrightarrow>
    process_file fs path = process_file fs' path')"
proof (intro conjI impI)
  assume a: "validate_item (JDict d) = Inr () \<and>
      k \<noteq> py_lit ''id'' \<and> k \<noteq> py_lit ''name'' \<and> k \<noteq> py_lit ''value''"
  then have k: "py_lit ''id'' \<noteq> k" "py_lit ''name'' \<noteq> k" "py_lit ''value'' \<noteq> k"
    by auto
  from a have "validate_item (JDict d) = Inr ()" ..
  from validate_item_Inr_iff [THEN iffD1, OF this] obtain i s v where
    f: "map_of d (py_lit ''id'') = Some i" "isinstance_int i"
       "map_of d (py_lit ''name'') = Some (JStr s)" "strip s \<noteq> []"
       "map_of d (py_lit ''value'') = Some v" "isinstance_int_float v"
    by auto
  show "validate_item (JDict ((k, x) # d)) = Inr ()"
    unfolding validate_item_Inr_iff using f k by simp
  show "getitem (JDict ((k, x) # d)) ''value'' = getitem (JDict d) ''value''"
    using k by simp
next
  assume a: "(\<forall>item\<in>set items. validate_item item = Inr ()) \<and>
    (\<forall>item\<in>set items'. validate_item item = Inr ()) \<and>
    map (\<lambda>item. getitem item ''value'') items = map (\<lambda>item. getitem item ''value'') items' \<and>
    fs path = Inr (JList items) \<and> fs' path' = Inr (JList items')"
  then have len: "length items = length items'"
    by (metis length_map)
  have "getitem (items ! j) ''value'' = getitem (items' ! j) ''value''" if "j < length items" for j
  proof -
    have "map (\<lambda>item. getitem item ''value'') items ! j =
          map (\<lambda>item. getitem item ''value'') items' ! j"
      using a by simp
    then show ?thesis using that len by simp
  qed
  with a len have "list_all2 (\<lambda>a b. validate_item a = Inr () \<and> validate_item b = Inr () \<and>
             getitem a ''value'' = getitem b ''value'') items items'"
    by (simp add: list_all2_conv_all_nth)
  from process_items_same_values [OF this]
  show "process_file fs path = process_file fs' path'"
    using a by (simp add: process_file_def)
qed

text \<open>A record and the same record with a key \<^verbatim>\<open>extra\<close> in front.\<close>

theorem extra_keys_ignored_witness:
  "validate_item
     (JDict [(py_lit ''extra'', JNull), (py_lit ''id'', JInt 1),
             (py_lit ''name'', JStr (py_lit ''a'')), (py_lit ''value'', JInt 7)]) = Inr () \<and>
   process_file
     (one_file ''a.json''
        (JList [JDict [(py_lit ''id'', JInt 1), (py_lit ''name'', JStr (py_lit ''a'')),
                       (py_lit ''value'', JInt 7)]])) ''a.json'' =
   process_file
     (one_file ''b.json''
        (JList [JDict [(py_lit ''extra'', JNull), (py_lit ''id'', JInt 1),
                       (py_lit ''name'', JStr (py_lit ''a'')), (py_lit ''value'', JInt 7)]]))
     ''b.json''"
proof -
  let ?d = "[(py_lit ''id'', JInt 1), (py_lit ''name'', JStr (py_lit ''a'')),
             (py_lit ''value'', JInt 7)]"
  let ?k = "py_lit ''extra''"
  have valid: "validate_item (JDict ?d) = Inr ()"
    by (simp add: py_lit_def strip_def isspace_def)
  have k: "?k \<noteq> py_lit ''id'' \<and> ?k \<noteq> py_lit ''name'' \<and> ?k \<noteq> py_lit ''value''"
    by (simp add: py_lit_def)
  from extra_keys_ignored [of ?d ?k JNull "[JDict ?d]" "[JDict ((?k, JNull) # ?d)]"
      "one_file ''a.json'' (JList [JDict ?d])" "''a.json''"
      "one_file ''b.json'' (JList [JDict ((?k, JNull) # ?d)])" "''b.json''"]
  show ?thesis
    using valid k by (simp add: one_file_def)
qed

end
